theory Spec2Isabelle
  imports Main
begin

section \<open>JavaScript values\<close>

text \<open>
  The dashboard's session layer (\<^verbatim>\<open>authProvider.ts\<close>) and its resource gateway
  (\<^verbatim>\<open>dataProvider.ts\<close>) work on values that come out of \<^verbatim>\<open>JSON.parse\<close> and
  \<^verbatim>\<open>response.json()\<close>, test them for truthiness, read properties of them and print
  them into strings. A number is kept as the text \<^verbatim>\<open>String(n)\<close> prints for it: both
  zeros are \<open>''0''\<close>, and what an overflowing literal parses to is \<open>''Infinity''\<close> or
  \<open>''-Infinity''\<close>. The program never computes with one. A string is kept as its bytes in
  UTF-8 (a lone surrogate as the three bytes of its code), so an ASCII character is one
  \<open>char\<close> and a code unit above 255 shows as a byte of \<open>0xC4\<close> or more. The members of
  an object are listed in the order the engine enumerates them. \<^verbatim>\<open>undefined\<close> is \<open>None\<close>
  of \<open>json option\<close>.
\<close>

type_synonym number = string

datatype json =
    JNull
  | JBool bool
  | JNum number
  | JStr string
  | JArr "json list"
  | JObj "(string \<times> json) list"

type_synonym js = "json option"

text \<open>
  What the engine itself can raise in this program: a property read of \<^verbatim>\<open>null\<close> or
  \<^verbatim>\<open>undefined\<close>, an object that cannot be turned into a string, a call of something that is
  not a function. The text of such a \<^verbatim>\<open>TypeError\<close> is the engine's; \<open>message\<close> takes it
  from there. \<open>Thrown\<close> is an error of the platform (a failed \<^verbatim>\<open>fetch\<close>, a body that is
  not JSON) with the message it carries.
\<close>

datatype fault = Reading js string | Not_primitive | Not_callable

datatype js_error = Error string | TypeError fault | Thrown string

type_synonym engine = "fault \<Rightarrow> string"

fun message :: "engine \<Rightarrow> js_error \<Rightarrow> string" where
  "message eng (Error m) = m"
| "message eng (TypeError f) = eng f"
| "message eng (Thrown m) = m"

fun truthy :: "js \<Rightarrow> bool" where
  "truthy None = False"
| "truthy (Some JNull) = False"
| "truthy (Some (JBool b)) = b"
| "truthy (Some (JNum n)) = (n \<noteq> ''0'' \<and> n \<noteq> ''NaN'')"
| "truthy (Some (JStr s)) = (s \<noteq> [])"
| "truthy (Some (JArr xs)) = True"
| "truthy (Some (JObj kvs)) = True"

text \<open>
  \<^verbatim>\<open>x.k\<close> for the property names the program reads (none of them is a property of a
  string, a number, a boolean or an array): a \<^verbatim>\<open>TypeError\<close> on \<^verbatim>\<open>null\<close> and
  \<^verbatim>\<open>undefined\<close>, the member of an object, \<^verbatim>\<open>undefined\<close> otherwise.
\<close>

fun property :: "js \<Rightarrow> string \<Rightarrow> js_error + js" where
  "property None k = Inl (TypeError (Reading None k))"
| "property (Some JNull) k = Inl (TypeError (Reading (Some JNull) k))"
| "property (Some (JObj kvs)) k = Inr (map_of kvs k)"
| "property (Some v) k = Inr None"

text \<open>
  \<^verbatim>\<open>String(v)\<close>, as a template literal and \<^verbatim>\<open>new Error(v)\<close> apply it. An array prints
  its elements joined by commas, \<^verbatim>\<open>null\<close> elements as nothing; an object prints as
  \<^verbatim>\<open>[object Object]\<close> unless a member of its own hides \<^verbatim>\<open>toString\<close>, and then the
  conversion throws (\<open>None\<close>).
\<close>

fun to_string :: "json \<Rightarrow> string option"
  and join :: "json list \<Rightarrow> string option" where
  "to_string JNull = Some ''null''"
| "to_string (JBool b) = Some (if b then ''true'' else ''false'')"
| "to_string (JNum n) = Some n"
| "to_string (JStr s) = Some s"
| "to_string (JArr xs) = join xs"
| "to_string (JObj kvs) =
     (if ''toString'' \<in> fst ` set kvs then None else Some ''[object Object]'')"
| "join [] = Some []"
| "join (x # xs) =
     (case (if x = JNull then Some [] else to_string x) of
        None \<Rightarrow> None
      | Some s \<Rightarrow>
          (if xs = [] then Some s
           else (case join xs of None \<Rightarrow> None | Some t \<Rightarrow> Some (s @ '','' @ t))))"

section \<open>Persisted storage\<close>

text \<open>
  \<^verbatim>\<open>localStorage\<close> maps keys to texts. A text is kept as what \<^verbatim>\<open>JSON.parse\<close> makes of
  it: \<open>Encoded v\<close> is a text that parses to \<open>v\<close>, \<open>Garbled s\<close> is a text \<open>s\<close> on which
  \<^verbatim>\<open>JSON.parse\<close> throws (the empty text is one). The storage is taken to accept every
  write.
\<close>

datatype item = Garbled string | Encoded json

type_synonym storage = "string \<rightharpoonup> item"

definition getItem :: "storage \<Rightarrow> string \<Rightarrow> item option" where
  "getItem st k = st k"

definition setItem :: "storage \<Rightarrow> string \<Rightarrow> item \<Rightarrow> storage" where
  "setItem st k v = st(k \<mapsto> v)"

definition removeItem :: "storage \<Rightarrow> string \<Rightarrow> storage" where
  "removeItem st k = st(k := None)"

text \<open>The test \<^verbatim>\<open>if (auth)\<close> on what \<^verbatim>\<open>getItem\<close> returned: \<^verbatim>\<open>null\<close> and the empty text fail it.\<close>

fun present :: "item option \<Rightarrow> bool" where
  "present None = False"
| "present (Some (Garbled s)) = (s \<noteq> [])"
| "present (Some (Encoded v)) = True"

fun JSON_parse :: "item \<Rightarrow> json option" where
  "JSON_parse (Garbled s) = None"
| "JSON_parse (Encoded v) = Some v"

text \<open>
  \<^verbatim>\<open>JSON.stringify\<close> writes a number that is not finite as \<^verbatim>\<open>null\<close>, at any depth, and
  every other value as a text that parses back to it: \<open>written v\<close> is what the text of
  \<open>v\<close> parses to. Of an object literal it leaves out the members whose value is
  \<^verbatim>\<open>undefined\<close>.
\<close>

fun written :: "json \<Rightarrow> json" where
  "written JNull = JNull"
| "written (JBool b) = JBool b"
| "written (JNum n) = (if n \<in> {''Infinity'', ''-Infinity'', ''NaN''} then JNull else JNum n)"
| "written (JStr s) = JStr s"
| "written (JArr xs) = JArr (map written xs)"
| "written (JObj kvs) = JObj (map (\<lambda>(k, v). (k, written v)) kvs)"

definition JSON_stringify :: "(string \<times> js) list \<Rightarrow> item" where
  "JSON_stringify members =
     Encoded (JObj (List.map_filter (\<lambda>(k, v). map_option (\<lambda>x. (k, written x)) v) members))"

section \<open>The session manager (\<^verbatim>\<open>authProvider.ts\<close>)\<close>

text \<open>
  A promise is the pair of how it settles and the storage it leaves: \<open>Inr\<close> when it
  resolves, \<open>Inl\<close> the error it rejects with.

  \<open>login\<close> sees the outside through \<open>env\<close>: what \<^verbatim>\<open>fetch\<close> on the login endpoint
  does with the credentials it is sent (it throws, or answers with \<^verbatim>\<open>response.ok\<close> and a body that \<^verbatim>\<open>response.json()\<close>
  reads or fails to read), the clock (\<^verbatim>\<open>Date.now()\<close> and
  \<^verbatim>\<open>new Date().toISOString()\<close>) and the engine's error texts. The time that
  \<^verbatim>\<open>toISOString\<close> prints is in UTC and ends in \<^verbatim>\<open>Z\<close>; \<open>utc\<close> is what stands before
  the \<^verbatim>\<open>Z\<close>.
\<close>

datatype payload = Unreadable js_error | Body json

datatype fetch_result = Fetch_throws js_error | Response bool payload

record env =
  fetch :: fetch_result
  Date_now :: number
  utc :: string
  engine :: engine

definition toISOString :: "env \<Rightarrow> string" where
  "toISOString e = utc e @ ''Z''"

definition and_then :: "'e + 'a \<Rightarrow> ('a \<Rightarrow> 'e + 'b) \<Rightarrow> 'e + 'b" where
  "and_then r f = (case r of Inl e \<Rightarrow> Inl e | Inr a \<Rightarrow> f a)"

text \<open>A chain of property reads, \<^verbatim>\<open>data.user.username\<close>: the first read that throws ends it.\<close>

fun path :: "js \<Rightarrow> string list \<Rightarrow> js_error + js" where
  "path x [] = Inr x"
| "path x (k # ks) = and_then (property x k) (\<lambda>y. path y ks)"

text \<open>\<^verbatim>\<open>new Error(v || fallback)\<close>, or the \<^verbatim>\<open>TypeError\<close> of a \<open>v\<close> that does not print.\<close>

fun new_Error :: "js \<Rightarrow> string \<Rightarrow> js_error" where
  "new_Error None fallback = Error fallback"
| "new_Error (Some v) fallback =
     (if truthy (Some v)
      then (case to_string v of None \<Rightarrow> TypeError Not_primitive | Some m \<Rightarrow> Error m)
      else Error fallback)"

text \<open>
  The \<^verbatim>\<open>try\<close> block of \<open>login\<close>: \<open>Inr\<close> the storage when it returns, \<open>Inl\<close> what it
  throws. Nothing is written before a throw: \<^verbatim>\<open>setItem\<close> is its last step.
\<close>

definition api_login :: "env \<Rightarrow> storage \<Rightarrow> js_error + storage" where
  "api_login e st =
     (case fetch e of
        Fetch_throws err \<Rightarrow> Inl err
      | Response ok body \<Rightarrow>
          (if ok then
             (case body of
                Unreadable err \<Rightarrow> Inl err
              | Body data \<Rightarrow>
                  and_then (path (Some data) [''user'', ''username'']) (\<lambda>username.
                  and_then (path (Some data) [''user'', ''full_name'']) (\<lambda>full_name.
                  and_then (path (Some data) [''user'', ''email'']) (\<lambda>email.
                  and_then (path (Some data) [''user'', ''role'']) (\<lambda>role.
                  and_then (path (Some data) [''access_token'']) (\<lambda>access_token.
                    Inr (setItem st ''auth'' (JSON_stringify
                      [(''username'', username),
                       (''fullName'', full_name),
                       (''email'', email),
                       (''role'', role),
                       (''token'', access_token),
                       (''loginTime'', Some (JStr (toISOString e)))]))))))))
           else
             (case body of
                Unreadable err \<Rightarrow> Inl err
              | Body errorData \<Rightarrow>
                  (case property (Some errorData) ''detail'' of
                     Inl err \<Rightarrow> Inl err
                   | Inr detail \<Rightarrow> Inl (new_Error detail ''Login failed'')))))"

record credential =
  username :: string
  password :: string
  role :: string
  fullName :: string

definition staticCredentials :: "credential list" where
  "staticCredentials =
     [\<lparr>username = ''admin'', password = ''admin'', role = ''admin'', fullName = ''Administrator''\<rparr>,
      \<lparr>username = ''user'', password = ''user123'', role = ''user'', fullName = ''Standard User''\<rparr>,
      \<lparr>username = ''test'', password = ''test'', role = ''viewer'', fullName = ''Test User''\<rparr>]"

definition login :: "string \<Rightarrow> string \<Rightarrow> env \<Rightarrow> storage \<Rightarrow> (js_error + unit) \<times> storage" where
  "login u p e st =
     (case api_login e st of
        Inr st' \<Rightarrow> (Inr (), st')
      | Inl apiError \<Rightarrow>
          (case find (\<lambda>cred. username cred = u \<and> password cred = p) staticCredentials of
             Some staticUser \<Rightarrow>
               (Inr (), setItem st ''auth'' (JSON_stringify
                  [(''username'', Some (JStr (username staticUser))),
                   (''fullName'', Some (JStr (fullName staticUser))),
                   (''role'', Some (JStr (role staticUser))),
                   (''token'', Some (JStr (''static-jwt-token-'' @ Date_now e))),
                   (''loginTime'', Some (JStr (toISOString e)))]))
           | None \<Rightarrow>
               (let errorMessage =
                      (if message (engine e) apiError \<noteq> [] then message (engine e) apiError
                       else ''Invalid username or password'')
                in (Inl (Error errorMessage), st))))"


definition checkError :: "int \<Rightarrow> storage \<Rightarrow> (js_error + unit) \<times> storage" where
  "checkError status st =
     (if status = 401 \<or> status = 403
      then (Inl (Error ''Authentication required''), removeItem st ''auth'')
      else (Inr (), st))"

definition checkAuth :: "storage \<Rightarrow> (js_error + unit) \<times> storage" where
  "checkAuth st =
     (let auth = getItem st ''auth'' in
      case auth of
        None \<Rightarrow> (Inl (Error ''Not authenticated''), st)
      | Some text \<Rightarrow>
          (if present auth then
             (case JSON_parse text of
                None \<Rightarrow> (Inl (Error ''Not authenticated''), removeItem st ''auth'')
              | Some authData \<Rightarrow>
                  (case property (Some authData) ''token'' of
                     Inl err \<Rightarrow> (Inl (Error ''Not authenticated''), removeItem st ''auth'')
                   | Inr token \<Rightarrow>
                       (if truthy token then (Inr (), st)
                        else (Inl (Error ''Not authenticated''), st))))
           else (Inl (Error ''Not authenticated''), st)))"

definition getPermissions :: "storage \<Rightarrow> (js_error + js) \<times> storage" where
  "getPermissions st =
     (let auth = getItem st ''auth'' in
      case auth of
        None \<Rightarrow> (Inl (Error ''No permissions available''), st)
      | Some text \<Rightarrow>
          (if present auth then
             (case JSON_parse text of
                None \<Rightarrow> (Inl (Error ''No permissions available''), st)
              | Some user \<Rightarrow>
                  (case property (Some user) ''role'' of
                     Inl err \<Rightarrow> (Inl (Error ''No permissions available''), st)
                   | Inr r \<Rightarrow> (Inr r, st)))
           else (Inl (Error ''No permissions available''), st)))"


subsection \<open>The static provider\<close>

text \<open>
  \<^verbatim>\<open>authProvider.ts\<close> also holds the provider without the remote call. Its promises
  may reject with no reason at all (\<^verbatim>\<open>Promise.reject()\<close>): \<open>Inl None\<close>.
\<close>

definition validCredentials :: "(string \<times> string) list" where
  "validCredentials =
     [(''admin'', ''admin''), (''user'', ''user123''), (''test'', ''test''), (''user'', ''user123'')]"

definition login_static :: "string \<Rightarrow> string \<Rightarrow> storage \<Rightarrow> (js_error option + unit) \<times> storage" where
  "login_static u p st =
     (let isValid = list_ex (\<lambda>(cu, cp). cu = u \<and> cp = p) validCredentials in
      if isValid
      then (Inr (), setItem st ''auth'' (JSON_stringify
              [(''username'', Some (JStr u)),
               (''token'', Some (JStr ''fake-jwt-token'')),
               (''role'', Some (JStr ''admin''))]))
      else (Inl (Some (Error ''Invalid username or password'')), st))"

definition logout_static :: "storage \<Rightarrow> (js_error option + unit) \<times> storage" where
  "logout_static st = (Inr (), removeItem st ''auth'')"

definition checkError_static :: "int \<Rightarrow> storage \<Rightarrow> (js_error option + unit) \<times> storage" where
  "checkError_static status st =
     (if status = 401 \<or> status = 403
      then (Inl None, removeItem st ''auth'')
      else (Inr (), st))"

definition checkAuth_static :: "storage \<Rightarrow> (js_error option + unit) \<times> storage" where
  "checkAuth_static st =
     (let auth = getItem st ''auth'' in
      if present auth then (Inr (), st) else (Inl None, st))"

section \<open>The resource gateway (\<^verbatim>\<open>dataProvider.ts\<close>)\<close>

subsection \<open>The HTTP client\<close>

text \<open>
  \<open>httpClient\<close> prepares the options of a request and hands them, with the URL, to
  \<^verbatim>\<open>fetchUtils.fetchJson\<close>; the model returns what it hands over. The other members of
  the options pass through untouched (the record's extension).

  \<^verbatim>\<open>Headers\<close>, as \<^verbatim>\<open>new Headers\<close> makes it, is a map from names to values. Names are
  compared without regard to case: the map keeps them in lower case. \<^verbatim>\<open>set\<close> strips the
  HTTP whitespace (tab, line feed, carriage return, space) from both ends of the value
  and throws a \<^verbatim>\<open>TypeError\<close> (\<open>None\<close>) when the value has a code unit above 255 or when
  what is left of it contains a NUL, a line feed or a carriage return.
\<close>

type_synonym headers = "string \<rightharpoonup> string"

definition lower :: "char \<Rightarrow> char" where
  "lower c =
     (if 65 \<le> (of_char c :: nat) \<and> (of_char c :: nat) \<le> 90
      then ''abcdefghijklmnopqrstuvwxyz'' ! (of_char c - 65)
      else c)"

definition header_name :: "string \<Rightarrow> string" where
  "header_name name = map lower name"

definition whitespace :: "char \<Rightarrow> bool" where
  "whitespace c = (c \<in> {CHR 0x09, CHR 0x0A, CHR 0x0D, CHR 0x20})"

definition header_value :: "string \<Rightarrow> string option" where
  "header_value v =
     (if list_ex (\<lambda>c. 196 \<le> (of_char c :: nat)) v then None
      else
        (let normalized = rev (dropWhile whitespace (rev (dropWhile whitespace v)))
         in if list_ex (\<lambda>c. c \<in> {CHR 0x00, CHR 0x0A, CHR 0x0D}) normalized then None
            else Some normalized))"

definition Headers_set :: "headers \<Rightarrow> string \<Rightarrow> string \<Rightarrow> headers option" where
  "Headers_set h name v = map_option (\<lambda>value. h(header_name name \<mapsto> value)) (header_value v)"

record options =
  headers :: "headers option"

definition httpClient ::
  "storage \<Rightarrow> string \<Rightarrow> 'a options_scheme \<Rightarrow> string \<times> 'a options_scheme" where
  "httpClient st url options0 =
     (let options1 =
            (case headers options0 of
               None \<Rightarrow> options0\<lparr>headers := Some [header_name ''Accept'' \<mapsto> ''application/json'']\<rparr>
             | Some h \<Rightarrow> options0);
          authData = getItem st ''auth'';
          options2 =
            (case authData of
               None \<Rightarrow> options1
             | Some text \<Rightarrow>
                 (if present authData then
                    (case JSON_parse text of
                       None \<Rightarrow> options1
                     | Some auth \<Rightarrow>
                         (case property (Some auth) ''token'' of
                            Inl err \<Rightarrow> options1
                          | Inr None \<Rightarrow> options1
                          | Inr (Some token) \<Rightarrow>
                              (if truthy (Some token) then
                                 (case to_string token of
                                    None \<Rightarrow> options1
                                  | Some printed \<Rightarrow>
                                      (case headers options1 of
                                         None \<Rightarrow> options1
                                       | Some h \<Rightarrow>
                                           (case Headers_set h ''Authorization'' (''Bearer '' @ printed) of
                                              None \<Rightarrow> options1
                                            | Some h' \<Rightarrow> options1\<lparr>headers := Some h'\<rparr>)))
                               else options1)))
                  else options1))
      in (url, options2))"

text \<open>
  The earlier client kept beside the provider in \<^verbatim>\<open>authProvider.ts\<close> reads the key
  \<^verbatim>\<open>token\<close> instead and attaches the text it finds there as it is. The storage model does
  not keep the text of an item that parses, so the client takes it from \<open>text_of\<close>. It
  has no \<^verbatim>\<open>try\<close> around \<^verbatim>\<open>set\<close>: when \<^verbatim>\<open>set\<close> throws, the client throws (\<open>None\<close>).
\<close>

definition httpClient_token_key ::
  "(item \<Rightarrow> string) \<Rightarrow> storage \<Rightarrow> string \<Rightarrow> 'a options_scheme \<Rightarrow>
     (string \<times> 'a options_scheme) option" where
  "httpClient_token_key text_of st url options0 =
     (let options1 =
            (case headers options0 of
               None \<Rightarrow> options0\<lparr>headers := Some [header_name ''Accept'' \<mapsto> ''application/json'']\<rparr>
             | Some h \<Rightarrow> options0);
          token = getItem st ''token''
      in case token of
           None \<Rightarrow> Some (url, options1)
         | Some text \<Rightarrow>
             (if present token then
                (case headers options1 of
                   None \<Rightarrow> Some (url, options1)
                 | Some h \<Rightarrow>
                     (case Headers_set h ''Authorization'' (''Bearer '' @ text_of text) of
                        None \<Rightarrow> None
                      | Some h' \<Rightarrow> Some (url, options1\<lparr>headers := Some h'\<rparr>)))
              else Some (url, options1)))"

subsection \<open>The operations\<close>

text \<open>
  Each operation awaits the same operation of the base provider
  (\<^verbatim>\<open>simpleRestProvider\<close>, a library) and looks at what it throws: an object with,
  possibly, a numeric \<^verbatim>\<open>status\<close> and a \<^verbatim>\<open>body\<close>. The outcome of the base call is an
  argument, \<open>Inl\<close> what it threw or \<open>Inr\<close> its result. What the operation throws in turn
  is either an error it makes itself (\<open>Fresh\<close>) or the caught object, thrown again as it
  is (\<open>Raw\<close>).
\<close>

record failure =
  status :: "int option"
  body :: js
  reason :: string

datatype delivered = Fresh js_error | Raw failure

definition create :: "string \<Rightarrow> failure + 'r \<Rightarrow> delivered + 'r" where
  "create resource base =
     (case base of
        Inr result \<Rightarrow> Inr result
      | Inl error \<Rightarrow>
          (if resource = ''users'' then
             (if status error = Some 403 then
                Inl (Fresh (Error ''Administrator access required to create users. Please login as an admin.''))
              else if status error = Some 401 then
                Inl (Fresh (Error ''Authentication required. Please login to create users.''))
              else if status error = Some 409 then
                Inl (Fresh (Error ''Username or email already exists. Please choose different credentials.''))
              else if status error = Some 422 then
                Inl (Fresh (Error ''Validation error: Please check all required fields are filled correctly.''))
              else if status error = Some 500 then
                Inl (Fresh (Error ''Server error: Please try again or contact support.''))
              else Inl (Raw error))
           else Inl (Raw error)))"

definition update :: "string \<Rightarrow> failure + 'r \<Rightarrow> delivered + 'r" where
  "update resource base =
     (case base of
        Inr result \<Rightarrow> Inr result
      | Inl error \<Rightarrow>
          (if resource = ''users'' then
             (if status error = Some 403 then
                Inl (Fresh (Error ''Administrator access required to modify users.''))
              else if status error = Some 401 then
                Inl (Fresh (Error ''Authentication required. Please login to modify users.''))
              else if status error = Some 409 then
                Inl (Fresh (Error ''Username or email already exists for another user.''))
              else if status error = Some 404 then
                Inl (Fresh (Error ''User not found.''))
              else Inl (Raw error))
           else Inl (Raw error)))"

text \<open>\<^verbatim>\<open>s.includes(t)\<close> on strings: \<open>t\<close> occurs in \<open>s\<close>.\<close>

fun includes_str :: "string \<Rightarrow> string \<Rightarrow> bool" where
  "includes_str [] t = (t = [])"
| "includes_str (c # cs) t = (take (length t) (c # cs) = t \<or> includes_str cs t)"

fun nullish :: "js \<Rightarrow> bool" where
  "nullish None = True"
| "nullish (Some JNull) = True"
| "nullish (Some v) = False"

text \<open>
  \<^verbatim>\<open>error.body?.detail?.includes('Cannot delete')\<close> and the throw it guards. A missing
  body or detail gives the general message; a string is searched, an array is asked for
  the element; anything else has no \<^verbatim>\<open>includes\<close> to call, and the call throws.
\<close>

definition cannot_delete :: "failure \<Rightarrow> js_error" where
  "cannot_delete error =
     (if nullish (body error) then Error ''Cannot delete this user.''
      else
        (case property (body error) ''detail'' of
           Inl err \<Rightarrow> err
         | Inr None \<Rightarrow> Error ''Cannot delete this user.''
         | Inr (Some JNull) \<Rightarrow> Error ''Cannot delete this user.''
         | Inr (Some (JStr s)) \<Rightarrow>
             (if includes_str s ''Cannot delete'' then Error s else Error ''Cannot delete this user.'')
         | Inr (Some (JArr xs)) \<Rightarrow>
             (if JStr ''Cannot delete'' \<in> set xs
              then (case to_string (JArr xs) of None \<Rightarrow> TypeError Not_primitive | Some m \<Rightarrow> Error m)
              else Error ''Cannot delete this user.'')
         | Inr (Some v) \<Rightarrow> TypeError Not_callable))"

definition delete :: "string \<Rightarrow> failure + 'r \<Rightarrow> delivered + 'r" where
  "delete resource base =
     (case base of
        Inr result \<Rightarrow> Inr result
      | Inl error \<Rightarrow>
          (if resource = ''users'' then
             (if status error = Some 403 then
                Inl (Fresh (Error ''Administrator access required to delete users.''))
              else if status error = Some 401 then
                Inl (Fresh (Error ''Authentication required. Please login to delete users.''))
              else if status error = Some 400 then
                Inl (Fresh (cannot_delete error))
              else Inl (Raw error))
           else Inl (Raw error)))"

text \<open>
  \<open>getList\<close> logs \<^verbatim>\<open>result.data.length\<close> inside its \<^verbatim>\<open>try\<close>: with no \<^verbatim>\<open>data\<close> the read
  throws, the \<^verbatim>\<open>catch\<close> finds no status on that \<^verbatim>\<open>TypeError\<close> and throws it on.
\<close>

record 'r list_result =
  data :: js
  total :: 'r

definition getList :: "string \<Rightarrow> failure + 'r list_result \<Rightarrow> delivered + 'r list_result" where
  "getList resource base =
     (case base of
        Inr result \<Rightarrow>
          (if nullish (data result) then Inl (Fresh (TypeError (Reading (data result) ''length'')))
           else Inr result)
      | Inl error \<Rightarrow>
          (if resource = ''users'' then
             (if status error = Some 401 then
                Inl (Fresh (Error ''Authentication required to view users. Please login.''))
              else if status error = Some 403 then
                Inl (Fresh (Error ''Access denied. You do not have permission to view users.''))
              else Inl (Raw error))
           else Inl (Raw error)))"

definition getOne :: "string \<Rightarrow> failure + 'r \<Rightarrow> delivered + 'r" where
  "getOne resource base =
     (case base of
        Inr result \<Rightarrow> Inr result
      | Inl error \<Rightarrow>
          (if resource = ''users'' then
             (if status error = Some 401 then
                Inl (Fresh (Error ''Authentication required to view user details.''))
              else if status error = Some 403 then
                Inl (Fresh (Error ''Access denied. You do not have permission to view this user.''))
              else Inl (Raw error))
           else Inl (Raw error)))"

section \<open>The session invariant\<close>




section \<open>Properties of the session manager\<close>

subsection \<open>The two allow-lists\<close>

lemma allow_lists_agree:
  "set validCredentials = set (map (\<lambda>c. (username c, password c)) staticCredentials)"
  by (auto simp: validCredentials_def staticCredentials_def)

lemma find_staticCredentials_None:
  "(u, p) \<notin> set (map (\<lambda>c. (username c, password c)) staticCredentials)
   \<Longrightarrow> find (\<lambda>cred. username cred = u \<and> password cred = p) staticCredentials = None"
  by (auto simp: find_None_iff)


subsection \<open>What \<^verbatim>\<open>JSON.stringify\<close> keeps\<close>

lemma map_of_stringify_absent:
  "k \<notin> fst ` set ms \<Longrightarrow>
   map_of (List.map_filter (\<lambda>(k, v). map_option (\<lambda>x. (k, written x)) v) ms) k = None"
  by (induction ms) (auto simp: List.map_filter_simps split: option.splits)

lemma map_of_stringify:
  "distinct (map fst ms) \<Longrightarrow>
   map_of (List.map_filter (\<lambda>(k, v). map_option (\<lambda>x. (k, written x)) v) ms) k =
     (case map_of ms k of Some (Some v) \<Rightarrow> Some (written v) | _ \<Rightarrow> None)"
proof (induction ms)
  case Nil
  then show ?case by (simp add: List.map_filter_simps)
next
  case (Cons m ms)
  obtain k' v' where m: "m = (k', v')" by (cases m)
  show ?case
  proof (cases v')
    case None
    with Cons m show ?thesis
      by (force simp: List.map_filter_simps map_of_stringify_absent split: option.splits)
  next
    case (Some a)
    with Cons m show ?thesis
      by (auto simp: List.map_filter_simps split: option.splits)
  qed
qed

lemma stringify_members:
  "\<exists>members. JSON_stringify ms = Encoded (JObj members) \<and>
     (distinct (map fst ms) \<longrightarrow>
        (\<forall>k. map_of members k =
               (case map_of ms k of Some (Some v) \<Rightarrow> Some (written v) | _ \<Rightarrow> None)))"
  by (simp add: JSON_stringify_def map_of_stringify)

subsection \<open>The remote path\<close>

lemma api_login_rejected:
  "fetch e = Response False answer \<Longrightarrow> \<exists>err. api_login e st = Inl err"
  by (auto simp: api_login_def split: payload.splits sum.splits)

lemma api_login_writes:
  "api_login e st = Inr st' \<Longrightarrow> \<exists>members. st' = st(''auth'' \<mapsto> Encoded (JObj members))"
  by (auto simp: api_login_def and_then_def setItem_def JSON_stringify_def
      split: fetch_result.splits payload.splits sum.splits if_splits)

lemma api_login_Inr:
  assumes "api_login e st = Inr st'"
  shows "\<exists>reply un fn em rl tk.
           fetch e = Response True (Body reply) \<and>
           path (Some reply) [''user'', ''username''] = Inr un \<and>
           path (Some reply) [''user'', ''full_name''] = Inr fn \<and>
           path (Some reply) [''user'', ''email''] = Inr em \<and>
           path (Some reply) [''user'', ''role''] = Inr rl \<and>
           property (Some reply) ''access_token'' = Inr tk \<and>
           st' = st(''auth'' \<mapsto> JSON_stringify
                  [(''username'', un), (''fullName'', fn), (''email'', em), (''role'', rl),
                   (''token'', tk), (''loginTime'', Some (JStr (toISOString e)))])"
  using assms
  by (auto simp: api_login_def and_then_def setItem_def
      split: fetch_result.splits payload.splits sum.splits if_splits)





subsection \<open>A login that resolves\<close>

lemma login_Inr:
  assumes "login u p e st = (Inr (), st')"
  shows "api_login e st = Inr st' \<or>
         (\<exists>err (c :: credential). api_login e st = Inl err \<and>
            st' = st(''auth'' \<mapsto> Encoded (JObj
                  [(''username'', JStr (username c)),
                   (''fullName'', JStr (fullName c)),
                   (''role'', JStr (role c)),
                   (''token'', JStr (''static-jwt-token-'' @ Date_now e)),
                   (''loginTime'', JStr (toISOString e))])))"
proof (cases "api_login e st")
  case (Inr s)
  with assms show ?thesis by (simp add: login_def)
next
  case (Inl err)
  show ?thesis
  proof (cases "find (\<lambda>cred. username cred = u \<and> password cred = p) staticCredentials")
    case None
    with Inl assms show ?thesis by (simp add: login_def Let_def)
  next
    case (Some c)
    with Inl assms have "st' = st(''auth'' \<mapsto> Encoded (JObj
                  [(''username'', JStr (username c)),
                   (''fullName'', JStr (fullName c)),
                   (''role'', JStr (role c)),
                   (''token'', JStr (''static-jwt-token-'' @ Date_now e)),
                   (''loginTime'', JStr (toISOString e))]))"
      by (simp add: login_def setItem_def JSON_stringify_def)
    with Inl show ?thesis by blast
  qed
qed

lemma login_resolves_record:
  assumes "login u p e st = (Inr (), st')"
  shows "\<exists>members. st' ''auth'' = Some (Encoded (JObj members))"
  using login_Inr [OF assms] api_login_writes [of e st st'] by auto

lemma login_leaves_other_keys:
  "k \<noteq> ''auth'' \<Longrightarrow> snd (login u p e st) k = st k"
proof (cases "api_login e st")
  case (Inr st')
  assume "k \<noteq> ''auth''"
  with Inr api_login_writes [OF Inr] show ?thesis
    by (auto simp: login_def)
next
  case (Inl err)
  assume "k \<noteq> ''auth''"
  with Inl show ?thesis
    by (simp add: login_def setItem_def Let_def split: option.splits)
qed

lemma getPermissions_record:
  "st ''auth'' = Some (Encoded (JObj members)) \<Longrightarrow>
   getPermissions st = (Inr (map_of members ''role''), st)"
  by (simp add: getPermissions_def getItem_def)

lemma checkAuth_record:
  "st ''auth'' = Some (Encoded (JObj members)) \<Longrightarrow>
   (fst (checkAuth st) = Inr ()) = truthy (map_of members ''token'')"
  by (simp add: checkAuth_def getItem_def)

subsection \<open>Rejected logins\<close>

text \<open>
  Claim C1. A credential attempt that is not on the fallback allow-list and that the
  login endpoint answers with a status that is not ok makes \<open>login\<close> reject with an
  \<^verbatim>\<open>Error\<close>, and the storage is the one the call started with: nothing is written. The
  static provider, which has no remote call, rejects the same attempts and leaves the
  storage alone too.
\<close>

theorem login_rejected_leaves_storage:
  assumes "(u, p) \<notin> set (map (\<lambda>c. (username c, password c)) staticCredentials)"
    and "fetch e = Response False answer"
  shows "(\<exists>m. login u p e st = (Inl (Error m), st)) \<and>
         login_static u p st = (Inl (Some (Error ''Invalid username or password'')), st)"
proof -
  obtain err where "api_login e st = Inl err"
    using api_login_rejected [OF assms(2)] by blast
  moreover have "find (\<lambda>cred. username cred = u \<and> password cred = p) staticCredentials = None"
    using assms(1) by (rule find_staticCredentials_None)
  ultimately have "\<exists>m. login u p e st = (Inl (Error m), st)"
    by (simp add: login_def Let_def)
  moreover have "(u, p) \<notin> set validCredentials"
    using assms(1) by (simp only: allow_lists_agree not_False_eq_True)
  then have "login_static u p st = (Inl (Some (Error ''Invalid username or password'')), st)"
    by (auto simp: login_static_def Let_def list_ex_iff)
  ultimately show ?thesis by blast
qed

theorem login_rejected_leaves_storage_witness:
  "(''mallory'', ''guess'') \<notin> set (map (\<lambda>c. (username c, password c)) staticCredentials) \<and>
   (\<exists>m. login ''mallory'' ''guess''
          \<lparr>fetch = Response False (Body (JObj [(''detail'', JStr ''Incorrect username or password'')])),
           Date_now = ''1700000000000'', utc = ''2023-11-14T22:13:20.000'',
           engine = (\<lambda>f. ''TypeError'')\<rparr>
          [''auth'' \<mapsto> Garbled ''stale'']
        = (Inl (Error m), [''auth'' \<mapsto> Garbled ''stale''])) \<and>
   login_static ''mallory'' ''guess'' [''auth'' \<mapsto> Garbled ''stale'']
     = (Inl (Some (Error ''Invalid username or password'')), [''auth'' \<mapsto> Garbled ''stale''])"
proof -
  have h: "(''mallory'', ''guess'') \<notin> set (map (\<lambda>c. (username c, password c)) staticCredentials)"
    by (simp add: staticCredentials_def)
  show ?thesis
    using h login_rejected_leaves_storage [OF h, of
        "\<lparr>fetch = Response False (Body (JObj [(''detail'', JStr ''Incorrect username or password'')])),
          Date_now = ''1700000000000'', utc = ''2023-11-14T22:13:20.000'',
          engine = (\<lambda>f. ''TypeError'')\<rparr>"
        "Body (JObj [(''detail'', JStr ''Incorrect username or password'')])"
        "[''auth'' \<mapsto> Garbled ''stale'']"]
    by simp
qed

text \<open>The error of a rejected login carries the endpoint's own \<^verbatim>\<open>detail\<close> when it has one.\<close>

lemma login_rejected_message:
  "login ''mallory'' ''guess''
     (e\<lparr>fetch := Response False (Body (JObj [(''detail'', JStr ''Incorrect username or password'')]))\<rparr>)
     st
   = (Inl (Error ''Incorrect username or password''), st)"
  by (simp add: login_def api_login_def staticCredentials_def)

subsection \<open>Errors of downstream calls\<close>

text \<open>
  Claim C2. For every status code, \<open>checkError\<close> rejects, with the error
  \<^verbatim>\<open>Authentication required\<close>, and removes the persisted session exactly when the
  status is 401 or 403; for every other status it resolves and the storage is unchanged.
\<close>

theorem checkError_401_403:
  "checkError code st =
     (if code = 401 \<or> code = 403
      then (Inl (Error ''Authentication required''), st(''auth'' := None))
      else (Inr (), st))"
  by (simp add: checkError_def removeItem_def)

lemma checkError_static_401_403:
  "checkError_static code st =
     (if code = 401 \<or> code = 403 then (Inl None, st(''auth'' := None)) else (Inr (), st))"
  by (simp add: checkError_static_def removeItem_def)

subsection \<open>The authentication check\<close>

text \<open>
  Claim C3, as the code has it. \<open>checkAuth\<close> resolves exactly when the key \<^verbatim>\<open>auth\<close>
  holds a text that parses to a value whose \<^verbatim>\<open>token\<close> is truthy, and rejects with
  \<^verbatim>\<open>Not authenticated\<close> otherwise. It removes the record exactly when the \<^verbatim>\<open>try\<close> block
  throws: the text is not empty and is not JSON, or it is the JSON \<^verbatim>\<open>null\<close>. In every
  other case the storage is left as it is.
\<close>

theorem checkAuth_outcome:
  "(fst (checkAuth st) = Inr ()) =
     (\<exists>v token. st ''auth'' = Some (Encoded v) \<and> property (Some v) ''token'' = Inr token \<and> truthy token) \<and>
   (fst (checkAuth st) = Inr () \<or> fst (checkAuth st) = Inl (Error ''Not authenticated'')) \<and>
   snd (checkAuth st) =
     (if (\<exists>s. st ''auth'' = Some (Garbled s) \<and> s \<noteq> []) \<or> st ''auth'' = Some (Encoded JNull)
      then st(''auth'' := None) else st)"
proof (cases "st ''auth''")
  case None
  then show ?thesis by (simp add: checkAuth_def getItem_def)
next
  case (Some raw)
  show ?thesis
  proof (cases raw)
    case (Garbled s)
    with Some show ?thesis by (simp add: checkAuth_def getItem_def removeItem_def)
  next
    case (Encoded v)
    with Some show ?thesis
      by (cases v) (auto simp: checkAuth_def getItem_def removeItem_def)
  qed
qed

text \<open>
  The claim as the specification states it asks for every persisted record that exists
  and is malformed to be removed when the check fails. A record without a credential
  stays where it is, and so does an empty text.
\<close>

theorem checkAuth_keeps_partial_record:
  "fst (checkAuth [''auth'' \<mapsto> Encoded (JObj [(''username'', JStr ''admin''), (''role'', JStr ''admin'')])])
     = Inl (Error ''Not authenticated'') \<and>
   snd (checkAuth [''auth'' \<mapsto> Encoded (JObj [(''username'', JStr ''admin''), (''role'', JStr ''admin'')])]) ''auth''
     = Some (Encoded (JObj [(''username'', JStr ''admin''), (''role'', JStr ''admin'')])) \<and>
   fst (checkAuth [''auth'' \<mapsto> Garbled []]) = Inl (Error ''Not authenticated'') \<and>
   snd (checkAuth [''auth'' \<mapsto> Garbled []]) ''auth'' = Some (Garbled [])"
  by (simp add: checkAuth_def getItem_def)

text \<open>The static provider never looks at the token: any text that is not empty passes.\<close>

lemma checkAuth_static_ignores_token:
  "checkAuth_static [''auth'' \<mapsto> Encoded (JObj [(''username'', JStr ''admin'')])] =
     (Inr (), [''auth'' \<mapsto> Encoded (JObj [(''username'', JStr ''admin'')])])"
  by (simp add: checkAuth_static_def getItem_def)

subsection \<open>After a login\<close>

text \<open>
  Claim C6, as the code has it. When \<open>login\<close> resolves, the key \<^verbatim>\<open>auth\<close> holds a
  record; \<open>getPermissions\<close> on that storage resolves with exactly the role of the record
  (\<^verbatim>\<open>undefined\<close> when the record has none), and \<open>checkAuth\<close> on it resolves exactly when
  the token of the record is truthy. On the fallback path the token is
  \<^verbatim>\<open>static-jwt-token-\<close> and the clock, which is truthy; on the remote path it is the
  \<^verbatim>\<open>access_token\<close> of the answer as \<^verbatim>\<open>JSON.stringify\<close> writes it, whatever that is: none
  when the answer has none, \<^verbatim>\<open>null\<close> for a number that is not finite.
\<close>

theorem login_then_checkAuth_getPermissions:
  assumes "login u p e st = (Inr (), st')"
  shows "\<exists>members.
           st' ''auth'' = Some (Encoded (JObj members)) \<and>
           getPermissions st' = (Inr (map_of members ''role''), st') \<and>
           (fst (checkAuth st') = Inr ()) = truthy (map_of members ''token'') \<and>
           (case api_login e st of
              Inl err \<Rightarrow> map_of members ''token'' = Some (JStr (''static-jwt-token-'' @ Date_now e))
            | Inr s \<Rightarrow>
                (\<exists>reply access_token.
                   fetch e = Response True (Body reply) \<and>
                   property (Some reply) ''access_token'' = Inr access_token \<and>
                   map_of members ''token'' = map_option written access_token))"
proof -
  from login_Inr [OF assms] show ?thesis
  proof
    assume api: "api_login e st = Inr st'"
    from api_login_Inr [OF api] obtain reply un fn em rl tk where
      f: "fetch e = Response True (Body reply)" and
      tk: "property (Some reply) ''access_token'' = Inr tk" and
      st': "st' = st(''auth'' \<mapsto> JSON_stringify
                  [(''username'', un), (''fullName'', fn), (''email'', em), (''role'', rl),
                   (''token'', tk), (''loginTime'', Some (JStr (toISOString e)))])"
      by blast
    let ?ms = "[(''username'', un), (''fullName'', fn), (''email'', em), (''role'', rl),
                   (''token'', tk), (''loginTime'', Some (JStr (toISOString e)))]"
    obtain members where
      m: "JSON_stringify ?ms = Encoded (JObj members)" and
      look: "\<And>k. map_of members k =
               (case map_of ?ms k of Some (Some v) \<Rightarrow> Some (written v) | _ \<Rightarrow> None)"
      using stringify_members [of ?ms] by auto
    have auth: "st' ''auth'' = Some (Encoded (JObj members))"
      using st' m by simp
    have token: "map_of members ''token'' = map_option written tk"
      by (simp add: look split: option.splits)
    show ?thesis
      using auth getPermissions_record [of st' members] checkAuth_record [of st' members]
        api f tk token
      by auto
  next
    assume "\<exists>err (c :: credential). api_login e st = Inl err \<and>
            st' = st(''auth'' \<mapsto> Encoded (JObj
                  [(''username'', JStr (username c)),
                   (''fullName'', JStr (fullName c)),
                   (''role'', JStr (role c)),
                   (''token'', JStr (''static-jwt-token-'' @ Date_now e)),
                   (''loginTime'', JStr (toISOString e))]))"
    then obtain err and c :: credential where api: "api_login e st = Inl err" and
      st': "st' = st(''auth'' \<mapsto> Encoded (JObj
                  [(''username'', JStr (username c)),
                   (''fullName'', JStr (fullName c)),
                   (''role'', JStr (role c)),
                   (''token'', JStr (''static-jwt-token-'' @ Date_now e)),
                   (''loginTime'', JStr (toISOString e))]))"
      by blast
    let ?members = "[(''username'', JStr (username c)),
                   (''fullName'', JStr (fullName c)),
                   (''role'', JStr (role c)),
                   (''token'', JStr (''static-jwt-token-'' @ Date_now e)),
                   (''loginTime'', JStr (toISOString e))]"
    have auth: "st' ''auth'' = Some (Encoded (JObj ?members))"
      using st' by simp
    show ?thesis
      using auth getPermissions_record [of st' ?members] checkAuth_record [of st' ?members] api
      by (intro exI [of _ ?members]) simp
  qed
qed

theorem login_then_checkAuth_getPermissions_witness:
  "login ''admin'' ''admin''
     \<lparr>fetch = Fetch_throws (Thrown ''Failed to fetch''), Date_now = ''1700000000000'',
      utc = ''2023-11-14T22:13:20.000'', engine = (\<lambda>f. ''TypeError'')\<rparr> Map.empty
   = (Inr (), [''auth'' \<mapsto> Encoded (JObj
        [(''username'', JStr ''admin''), (''fullName'', JStr ''Administrator''),
         (''role'', JStr ''admin''), (''token'', JStr ''static-jwt-token-1700000000000''),
         (''loginTime'', JStr ''2023-11-14T22:13:20.000Z'')])]) \<and>
   getPermissions [''auth'' \<mapsto> Encoded (JObj
        [(''username'', JStr ''admin''), (''fullName'', JStr ''Administrator''),
         (''role'', JStr ''admin''), (''token'', JStr ''static-jwt-token-1700000000000''),
         (''loginTime'', JStr ''2023-11-14T22:13:20.000Z'')])]
   = (Inr (Some (JStr ''admin'')), [''auth'' \<mapsto> Encoded (JObj
        [(''username'', JStr ''admin''), (''fullName'', JStr ''Administrator''),
         (''role'', JStr ''admin''), (''token'', JStr ''static-jwt-token-1700000000000''),
         (''loginTime'', JStr ''2023-11-14T22:13:20.000Z'')])]) \<and>
   fst (checkAuth [''auth'' \<mapsto> Encoded (JObj
        [(''username'', JStr ''admin''), (''fullName'', JStr ''Administrator''),
         (''role'', JStr ''admin''), (''token'', JStr ''static-jwt-token-1700000000000''),
         (''loginTime'', JStr ''2023-11-14T22:13:20.000Z'')])]) = Inr () \<and>
   login ''driver'' ''pit-lane''
     \<lparr>fetch = Response True (Body (JObj
        [(''access_token'', JStr ''eyJhbGciOiJIUzI1NiJ9''), (''token_type'', JStr ''bearer''),
         (''user'', JObj [(''username'', JStr ''driver''), (''full_name'', JStr ''Driver One''),
                          (''email'', JStr ''driver@example.com''), (''role'', JStr ''user'')])])),
      Date_now = ''1700000360000'', utc = ''2023-11-14T22:19:20.000'',
      engine = (\<lambda>f. ''TypeError'')\<rparr>
     [''auth'' \<mapsto> Garbled ''stale'']
   = (Inr (), [''auth'' \<mapsto> Encoded (JObj
        [(''username'', JStr ''driver''), (''fullName'', JStr ''Driver One''),
         (''email'', JStr ''driver@example.com''), (''role'', JStr ''user''),
         (''token'', JStr ''eyJhbGciOiJIUzI1NiJ9''),
         (''loginTime'', JStr ''2023-11-14T22:19:20.000Z'')])]) \<and>
   getPermissions [''auth'' \<mapsto> Encoded (JObj
        [(''username'', JStr ''driver''), (''fullName'', JStr ''Driver One''),
         (''email'', JStr ''driver@example.com''), (''role'', JStr ''user''),
         (''token'', JStr ''eyJhbGciOiJIUzI1NiJ9''),
         (''loginTime'', JStr ''2023-11-14T22:19:20.000Z'')])]
   = (Inr (Some (JStr ''user'')), [''auth'' \<mapsto> Encoded (JObj
        [(''username'', JStr ''driver''), (''fullName'', JStr ''Driver One''),
         (''email'', JStr ''driver@example.com''), (''role'', JStr ''user''),
         (''token'', JStr ''eyJhbGciOiJIUzI1NiJ9''),
         (''loginTime'', JStr ''2023-11-14T22:19:20.000Z'')])]) \<and>
   fst (checkAuth [''auth'' \<mapsto> Encoded (JObj
        [(''username'', JStr ''driver''), (''fullName'', JStr ''Driver One''),
         (''email'', JStr ''driver@example.com''), (''role'', JStr ''user''),
         (''token'', JStr ''eyJhbGciOiJIUzI1NiJ9''),
         (''loginTime'', JStr ''2023-11-14T22:19:20.000Z'')])]) = Inr ()"
proof -
  let ?e = "\<lparr>fetch = Fetch_throws (Thrown ''Failed to fetch''), Date_now = ''1700000000000'',
      utc = ''2023-11-14T22:13:20.000'', engine = (\<lambda>f. ''TypeError'')\<rparr>"
  let ?st' = "[''auth'' \<mapsto> Encoded (JObj
        [(''username'', JStr ''admin''), (''fullName'', JStr ''Administrator''),
         (''role'', JStr ''admin''), (''token'', JStr ''static-jwt-token-1700000000000''),
         (''loginTime'', JStr ''2023-11-14T22:13:20.000Z'')])]"
  let ?e2 = "\<lparr>fetch = Response True (Body (JObj
        [(''access_token'', JStr ''eyJhbGciOiJIUzI1NiJ9''), (''token_type'', JStr ''bearer''),
         (''user'', JObj [(''username'', JStr ''driver''), (''full_name'', JStr ''Driver One''),
                          (''email'', JStr ''driver@example.com''), (''role'', JStr ''user'')])])),
      Date_now = ''1700000360000'', utc = ''2023-11-14T22:19:20.000'',
      engine = (\<lambda>f. ''TypeError'')\<rparr>"
  let ?st2' = "[''auth'' \<mapsto> Encoded (JObj
        [(''username'', JStr ''driver''), (''fullName'', JStr ''Driver One''),
         (''email'', JStr ''driver@example.com''), (''role'', JStr ''user''),
         (''token'', JStr ''eyJhbGciOiJIUzI1NiJ9''),
         (''loginTime'', JStr ''2023-11-14T22:19:20.000Z'')])]"
  have h: "login ''admin'' ''admin'' ?e Map.empty = (Inr (), ?st')"
    by (simp add: login_def api_login_def staticCredentials_def setItem_def JSON_stringify_def
        toISOString_def)
  have h2: "login ''driver'' ''pit-lane'' ?e2 [''auth'' \<mapsto> Garbled ''stale''] = (Inr (), ?st2')"
    by (simp add: login_def api_login_def and_then_def setItem_def JSON_stringify_def
        toISOString_def)
  from login_then_checkAuth_getPermissions [OF h] obtain members where
    "?st' ''auth'' = Some (Encoded (JObj members))" and
    "getPermissions ?st' = (Inr (map_of members ''role''), ?st')" and
    "(fst (checkAuth ?st') = Inr ()) = truthy (map_of members ''token'')"
    by blast
  then have first: "getPermissions ?st' = (Inr (Some (JStr ''admin'')), ?st')"
    "fst (checkAuth ?st') = Inr ()"
    by auto
  from login_then_checkAuth_getPermissions [OF h2] obtain members2 where
    "?st2' ''auth'' = Some (Encoded (JObj members2))" and
    "getPermissions ?st2' = (Inr (map_of members2 ''role''), ?st2')" and
    "(fst (checkAuth ?st2') = Inr ()) = truthy (map_of members2 ''token'')"
    by blast
  then have second: "getPermissions ?st2' = (Inr (Some (JStr ''user'')), ?st2')"
    "fst (checkAuth ?st2') = Inr ()"
    by auto
  from h h2 first second show ?thesis
    by (intro conjI)
qed

text \<open>
  The claim as the specification states it promises the check after every login that
  resolves. The login endpoint answers ok with an empty \<^verbatim>\<open>access_token\<close>: the login
  resolves, the session is written with that token, and the check that follows rejects.
\<close>

theorem login_with_empty_token_fails_checkAuth:
  "fst (login ''driver'' ''pit-lane''
         \<lparr>fetch = Response True (Body (JObj
            [(''access_token'', JStr []), (''token_type'', JStr ''bearer''),
             (''user'', JObj [(''username'', JStr ''driver''), (''full_name'', JStr ''Driver One''),
                              (''email'', JStr ''driver@example.com''), (''role'', JStr ''user'')])])),
          Date_now = ''1700000000000'', utc = ''2023-11-14T22:13:20.000'',
          engine = (\<lambda>f. ''TypeError'')\<rparr> Map.empty) = Inr () \<and>
   fst (checkAuth (snd (login ''driver'' ''pit-lane''
         \<lparr>fetch = Response True (Body (JObj
            [(''access_token'', JStr []), (''token_type'', JStr ''bearer''),
             (''user'', JObj [(''username'', JStr ''driver''), (''full_name'', JStr ''Driver One''),
                              (''email'', JStr ''driver@example.com''), (''role'', JStr ''user'')])])),
          Date_now = ''1700000000000'', utc = ''2023-11-14T22:13:20.000'',
          engine = (\<lambda>f. ''TypeError'')\<rparr> Map.empty))) = Inl (Error ''Not authenticated'')"
  by (simp add: login_def api_login_def and_then_def setItem_def JSON_stringify_def
      checkAuth_def getItem_def)

text \<open>
  A token that is not finite is truthy in the answer and \<^verbatim>\<open>null\<close> in the record: the
  login resolves and the check that follows rejects.
\<close>

lemma login_with_overflowing_token:
  "login ''driver'' ''pit-lane''
     \<lparr>fetch = Response True (Body (JObj
        [(''access_token'', JNum ''Infinity''),
         (''user'', JObj [(''username'', JStr ''driver''), (''full_name'', JStr ''Driver One''),
                          (''email'', JStr ''driver@example.com''), (''role'', JStr ''user'')])])),
      Date_now = ''1700000000000'', utc = ''2023-11-14T22:13:20.000'',
      engine = (\<lambda>f. ''TypeError'')\<rparr> Map.empty
   = (Inr (), [''auth'' \<mapsto> Encoded (JObj
        [(''username'', JStr ''driver''), (''fullName'', JStr ''Driver One''),
         (''email'', JStr ''driver@example.com''), (''role'', JStr ''user''),
         (''token'', JNull), (''loginTime'', JStr ''2023-11-14T22:13:20.000Z'')])]) \<and>
   fst (checkAuth [''auth'' \<mapsto> Encoded (JObj
        [(''username'', JStr ''driver''), (''fullName'', JStr ''Driver One''),
         (''email'', JStr ''driver@example.com''), (''role'', JStr ''user''),
         (''token'', JNull), (''loginTime'', JStr ''2023-11-14T22:13:20.000Z'')])])
     = Inl (Error ''Not authenticated'')"
  by (simp add: login_def api_login_def and_then_def setItem_def JSON_stringify_def
      toISOString_def checkAuth_def getItem_def)

subsection \<open>The fallback path\<close>

text \<open>
  Claim C8. With the login endpoint unreachable (\<^verbatim>\<open>fetch\<close> throws), the attempt
  \<^verbatim>\<open>admin\<close>/\<^verbatim>\<open>admin\<close> logs in through the fallback list, and the session that is
  persisted has the role \<^verbatim>\<open>admin\<close>.
\<close>

theorem login_admin_unreachable:
  "login ''admin'' ''admin'' (e\<lparr>fetch := Fetch_throws err\<rparr>) st =
     (Inr (), st(''auth'' \<mapsto> Encoded (JObj
        [(''username'', JStr ''admin''),
         (''fullName'', JStr ''Administrator''),
         (''role'', JStr ''admin''),
         (''token'', JStr (''static-jwt-token-'' @ Date_now e)),
         (''loginTime'', JStr (toISOString e))])))"
  by (simp add: login_def api_login_def staticCredentials_def setItem_def JSON_stringify_def
      toISOString_def)

lemma login_static_admin:
  "login_static ''admin'' ''admin'' st =
     (Inr (), st(''auth'' \<mapsto> Encoded (JObj
        [(''username'', JStr ''admin''),
         (''token'', JStr ''fake-jwt-token''),
         (''role'', JStr ''admin'')])))"
  by (simp add: login_static_def validCredentials_def setItem_def JSON_stringify_def)






subsection \<open>Whole records\<close>

















section \<open>Properties of the resource gateway\<close>

subsection \<open>The bearer credential\<close>

lemma header_names_differ:
  "header_name ''Accept'' \<noteq> header_name ''Authorization''"
  by (simp add: header_name_def lower_def)

lemma strip_end_tidy:
  assumes "x \<noteq> []" and "\<not> P (last x)"
  shows "rev (dropWhile P (rev x)) = x"
proof -
  from assms(1) obtain ys y where x: "x = ys @ [y]"
    by (cases x rule: rev_cases) auto
  with assms(2) show ?thesis by simp
qed

lemma header_value_bearer:
  assumes "s \<noteq> []"
    and "\<not> list_ex (\<lambda>c. 196 \<le> (of_char c :: nat)) s"
    and "\<not> list_ex (\<lambda>c. c \<in> {CHR 0x00, CHR 0x0A, CHR 0x0D}) s"
    and "\<not> whitespace (last s)"
  shows "header_value (''Bearer '' @ s) = Some (''Bearer '' @ s)"
proof -
  have big: "\<not> list_ex (\<lambda>c. 196 \<le> (of_char c :: nat)) (''Bearer '' @ s)"
    using assms(2) by (simp add: list_ex_iff)
  have front: "dropWhile whitespace (''Bearer '' @ s) = ''Bearer '' @ s"
    by (simp add: whitespace_def)
  have "last (''Bearer '' @ s) = last s"
    using assms(1) by simp
  with assms(4) have rear: "rev (dropWhile whitespace (rev (''Bearer '' @ s))) = ''Bearer '' @ s"
    by (intro strip_end_tidy) simp_all
  have ctl: "\<not> list_ex (\<lambda>c. c \<in> {CHR 0x00, CHR 0x0A, CHR 0x0D}) (''Bearer '' @ s)"
    using assms(3) by (simp add: list_ex_iff)
  show ?thesis
    unfolding header_value_def Let_def front rear
    using big ctl by simp
qed

text \<open>
  Claim C4, as the code has it. A request that leaves \<open>httpClient\<close> carries an
  \<^verbatim>\<open>Authorization\<close> made of the persisted session exactly when the record under
  \<^verbatim>\<open>auth\<close> parses, its token is truthy and prints, and \<^verbatim>\<open>Headers.set\<close> takes
  \<^verbatim>\<open>Bearer\<close> and the printed token for a value; the header is then that value, with
  the whitespace at its end stripped. Otherwise the request carries the
  \<^verbatim>\<open>Authorization\<close> the caller had put in the options, and none when there was none. A
  token that is a string, is not empty, has no code unit above 255, no NUL, line feed or
  carriage return and no whitespace at its end is attached as it is stored. After a login
  that resolved, the token in question is the one in the record that login wrote.
\<close>

theorem httpClient_attaches_session_token:
  fixes options0 :: "'a options_scheme"
  shows "\<exists>h. headers (snd (httpClient st url options0)) = Some h \<and>
           h (header_name ''Authorization'') =
             (case (case st ''auth'' of
                      None \<Rightarrow> None
                    | Some (Garbled s) \<Rightarrow> None
                    | Some (Encoded v) \<Rightarrow>
                        (case property (Some v) ''token'' of
                           Inl err \<Rightarrow> None
                         | Inr None \<Rightarrow> None
                         | Inr (Some token) \<Rightarrow>
                             (if truthy (Some token)
                              then (case to_string token of
                                      None \<Rightarrow> None
                                    | Some printed \<Rightarrow> header_value (''Bearer '' @ printed))
                              else None))) of
                Some value \<Rightarrow> Some value
              | None \<Rightarrow>
                  (case headers options0 of
                     None \<Rightarrow> None
                   | Some h0 \<Rightarrow> h0 (header_name ''Authorization''))) \<and>
           (\<forall>v s. st ''auth'' = Some (Encoded v) \<and>
                  property (Some v) ''token'' = Inr (Some (JStr s)) \<and>
                  s \<noteq> [] \<and>
                  \<not> list_ex (\<lambda>c. 196 \<le> (of_char c :: nat)) s \<and>
                  \<not> list_ex (\<lambda>c. c \<in> {CHR 0x00, CHR 0x0A, CHR 0x0D}) s \<and>
                  \<not> whitespace (last s)
                  \<longrightarrow> h (header_name ''Authorization'') = Some (''Bearer '' @ s)) \<and>
           (\<forall>u p e st0. login u p e st0 = (Inr (), st) \<longrightarrow>
              (\<exists>members. st ''auth'' = Some (Encoded (JObj members)) \<and>
                 h (header_name ''Authorization'') =
                   (case (case map_of members ''token'' of
                            None \<Rightarrow> None
                          | Some token \<Rightarrow>
                              (if truthy (Some token)
                               then (case to_string token of
                                       None \<Rightarrow> None
                                     | Some printed \<Rightarrow> header_value (''Bearer '' @ printed))
                               else None)) of
                      Some value \<Rightarrow> Some value
                    | None \<Rightarrow>
                        (case headers options0 of
                           None \<Rightarrow> None
                         | Some h0 \<Rightarrow> h0 (header_name ''Authorization'')))))"
proof -
  define h0 where
    "h0 = (case headers options0 of
             None \<Rightarrow> [header_name ''Accept'' \<mapsto> ''application/json'']
           | Some h \<Rightarrow> h)"
  define options1 where
    "options1 = (case headers options0 of
                   None \<Rightarrow> options0\<lparr>headers := Some [header_name ''Accept'' \<mapsto> ''application/json'']\<rparr>
                 | Some h \<Rightarrow> options0)"
  define bearer where
    "bearer = (case st ''auth'' of
                None \<Rightarrow> None
              | Some (Garbled s) \<Rightarrow> None
              | Some (Encoded v) \<Rightarrow>
                  (case property (Some v) ''token'' of
                     Inl err \<Rightarrow> None
                   | Inr None \<Rightarrow> None
                   | Inr (Some token) \<Rightarrow>
                       (if truthy (Some token)
                        then (case to_string token of
                                None \<Rightarrow> None
                              | Some printed \<Rightarrow> header_value (''Bearer '' @ printed))
                        else None)))"
  define incoming where
    "incoming = (case headers options0 of
                   None \<Rightarrow> None
                 | Some h \<Rightarrow> h (header_name ''Authorization''))"
  have h1: "headers options1 = Some h0"
    by (simp add: options1_def h0_def split: option.splits)
  have h0: "h0 (header_name ''Authorization'') = incoming"
    using header_names_differ by (simp add: h0_def incoming_def split: option.splits)
  have "snd (httpClient st url options0) =
          (case bearer of
             None \<Rightarrow> options1
           | Some value \<Rightarrow>
               options1\<lparr>headers := Some (h0(header_name ''Authorization'' \<mapsto> value))\<rparr>)"
    unfolding httpClient_def Let_def options1_def [symmetric] getItem_def
    by (simp add: bearer_def h1 Headers_set_def split: option.splits item.splits sum.splits)
  then have "headers (snd (httpClient st url options0)) =
          Some (case bearer of
                  None \<Rightarrow> h0
                | Some value \<Rightarrow> h0(header_name ''Authorization'' \<mapsto> value))"
    by (simp add: h1 split: option.splits)
  then obtain h where h: "headers (snd (httpClient st url options0)) = Some h" and
    hb: "h (header_name ''Authorization'') =
           (case bearer of Some value \<Rightarrow> Some value | None \<Rightarrow> incoming)"
    using h0 by (cases bearer) auto
  have tidy: "h (header_name ''Authorization'') = Some (''Bearer '' @ s)"
    if "st ''auth'' = Some (Encoded v)" and "property (Some v) ''token'' = Inr (Some (JStr s))"
      and "s \<noteq> []" and "\<not> list_ex (\<lambda>c. 196 \<le> (of_char c :: nat)) s"
      and "\<not> list_ex (\<lambda>c. c \<in> {CHR 0x00, CHR 0x0A, CHR 0x0D}) s"
      and "\<not> whitespace (last s)"
    for v s
  proof -
    from that(3-6) have "header_value (''Bearer '' @ s) = Some (''Bearer '' @ s)"
      by (rule header_value_bearer)
    with that(1-3) have "bearer = Some (''Bearer '' @ s)"
      by (simp add: bearer_def)
    with hb show ?thesis by simp
  qed
  have after: "\<exists>members. st ''auth'' = Some (Encoded (JObj members)) \<and>
                 h (header_name ''Authorization'') =
                   (case (case map_of members ''token'' of
                            None \<Rightarrow> None
                          | Some token \<Rightarrow>
                              (if truthy (Some token)
                               then (case to_string token of
                                       None \<Rightarrow> None
                                     | Some printed \<Rightarrow> header_value (''Bearer '' @ printed))
                               else None)) of
                      Some value \<Rightarrow> Some value
                    | None \<Rightarrow> incoming)"
    if "login u p e st0 = (Inr (), st)" for u p e st0
  proof -
    from login_resolves_record [OF that] obtain members where
      m: "st ''auth'' = Some (Encoded (JObj members))"
      by blast
    then have "bearer = (case map_of members ''token'' of
                            None \<Rightarrow> None
                          | Some token \<Rightarrow>
                              (if truthy (Some token)
                               then (case to_string token of
                                       None \<Rightarrow> None
                                     | Some printed \<Rightarrow> header_value (''Bearer '' @ printed))
                               else None))"
      by (simp add: bearer_def split: option.splits)
    with hb m show ?thesis by auto
  qed
  show ?thesis
    using h hb tidy after unfolding bearer_def incoming_def by blast
qed

theorem httpClient_attaches_session_token_witness:
  "[''auth'' \<mapsto> Encoded (JObj
      [(''username'', JStr ''admin''), (''fullName'', JStr ''Administrator''),
       (''role'', JStr ''admin''), (''token'', JStr ''static-jwt-token-1700000000000''),
       (''loginTime'', JStr ''2023-11-14T22:13:20.000Z'')])] ''auth''
     = Some (Encoded (JObj
      [(''username'', JStr ''admin''), (''fullName'', JStr ''Administrator''),
       (''role'', JStr ''admin''), (''token'', JStr ''static-jwt-token-1700000000000''),
       (''loginTime'', JStr ''2023-11-14T22:13:20.000Z'')])) \<and>
   \<not> whitespace (last ''static-jwt-token-1700000000000'') \<and>
   (\<exists>h. headers (snd (httpClient
            [''auth'' \<mapsto> Encoded (JObj
               [(''username'', JStr ''admin''), (''fullName'', JStr ''Administrator''),
                (''role'', JStr ''admin''), (''token'', JStr ''static-jwt-token-1700000000000''),
                (''loginTime'', JStr ''2023-11-14T22:13:20.000Z'')])]
            ''http://localhost:8000/drivers'' \<lparr>headers = None\<rparr>)) = Some h \<and>
        h (header_name ''Authorization'') = Some ''Bearer static-jwt-token-1700000000000'' \<and>
        h (header_name ''Accept'') = Some ''application/json'')"
proof -
  let ?session = "JObj
      [(''username'', JStr ''admin''), (''fullName'', JStr ''Administrator''),
       (''role'', JStr ''admin''), (''token'', JStr ''static-jwt-token-1700000000000''),
       (''loginTime'', JStr ''2023-11-14T22:13:20.000Z'')]"
  let ?st = "[''auth'' \<mapsto> Encoded ?session]"
  have a: "?st ''auth'' = Some (Encoded ?session)"
    by simp
  have t: "property (Some ?session) ''token'' = Inr (Some (JStr ''static-jwt-token-1700000000000''))"
    by simp
  have tidy: "''static-jwt-token-1700000000000'' \<noteq> []"
    "\<not> list_ex (\<lambda>c. 196 \<le> (of_char c :: nat)) ''static-jwt-token-1700000000000''"
    "\<not> list_ex (\<lambda>c. c \<in> {CHR 0x00, CHR 0x0A, CHR 0x0D}) ''static-jwt-token-1700000000000''"
    "\<not> whitespace (last ''static-jwt-token-1700000000000'')"
    by (simp_all add: whitespace_def)
  from httpClient_attaches_session_token
    [of ?st "''http://localhost:8000/drivers''" "\<lparr>headers = None\<rparr>"]
  obtain h where
    h: "headers (snd (httpClient ?st ''http://localhost:8000/drivers'' \<lparr>headers = None\<rparr>)) = Some h"
    and all: "\<forall>v s. ?st ''auth'' = Some (Encoded v) \<and>
                  property (Some v) ''token'' = Inr (Some (JStr s)) \<and>
                  s \<noteq> [] \<and>
                  \<not> list_ex (\<lambda>c. 196 \<le> (of_char c :: nat)) s \<and>
                  \<not> list_ex (\<lambda>c. c \<in> {CHR 0x00, CHR 0x0A, CHR 0x0D}) s \<and>
                  \<not> whitespace (last s)
                  \<longrightarrow> h (header_name ''Authorization'') = Some (''Bearer '' @ s)"
    by blast
  from all a t tidy have "h (header_name ''Authorization'') = Some (''Bearer '' @ ''static-jwt-token-1700000000000'')"
    by blast
  moreover from h have "h (header_name ''Accept'') = Some ''application/json''"
    by (auto simp: httpClient_def getItem_def Headers_set_def header_value_def whitespace_def
        header_name_def lower_def)
  ultimately show ?thesis
    using a tidy(4) h by auto
qed

text \<open>
  The claim as the specification states it has the header on every request made while a
  session with a token is persisted, and the token in it equal to the stored one. A
  stored token with a line feed in it passes \<open>checkAuth\<close>, and \<^verbatim>\<open>Headers.set\<close> throws on
  it inside the \<^verbatim>\<open>try\<close>: the request leaves with no \<^verbatim>\<open>Authorization\<close>. A stored token
  that ends in a space is attached without the space.
\<close>

theorem httpClient_drops_token_with_line_feed:
  "fst (checkAuth [''auth'' \<mapsto> Encoded (JObj
         [(''username'', JStr ''admin''), (''role'', JStr ''admin''),
          (''token'', JStr (''abc'' @ [CHR 0x0A] @ ''def''))])]) = Inr () \<and>
   headers (snd (httpClient
      [''auth'' \<mapsto> Encoded (JObj
         [(''username'', JStr ''admin''), (''role'', JStr ''admin''),
          (''token'', JStr (''abc'' @ [CHR 0x0A] @ ''def''))])]
      ''http://localhost:8000/drivers'' \<lparr>headers = None\<rparr>))
     = Some [header_name ''Accept'' \<mapsto> ''application/json''] \<and>
   [header_name ''Accept'' \<mapsto> ''application/json''] (header_name ''Authorization'') = None \<and>
   headers (snd (httpClient
      [''auth'' \<mapsto> Encoded (JObj
         [(''username'', JStr ''admin''), (''role'', JStr ''admin''),
          (''token'', JStr ''tok '')])]
      ''http://localhost:8000/drivers'' \<lparr>headers = None\<rparr>))
     = Some [header_name ''Accept'' \<mapsto> ''application/json'',
             header_name ''Authorization'' \<mapsto> ''Bearer tok'']"
  by (simp add: checkAuth_def getItem_def httpClient_def Headers_set_def header_value_def
      whitespace_def header_names_differ header_names_differ [symmetric])

text \<open>
  The earlier client looks under a key that no operation of the session manager writes:
  \<open>login\<close> touches \<^verbatim>\<open>auth\<close> only, so after a login on a storage without that key it
  attaches nothing.
\<close>

lemma httpClient_token_key_without_token:
  "st ''token'' = None \<Longrightarrow>
   httpClient_token_key text_of st url \<lparr>headers = None\<rparr> =
     Some (url, \<lparr>headers = Some [header_name ''Accept'' \<mapsto> ''application/json'']\<rparr>)"
  by (simp add: httpClient_token_key_def getItem_def)

subsection \<open>Errors of the base provider\<close>

text \<open>
  Claim C7. A \<open>create\<close> on \<^verbatim>\<open>users\<close> that the base provider fails with status 409
  throws a new \<^verbatim>\<open>Error\<close> saying that the username or email already exists, not the
  caught object.
\<close>

theorem create_users_conflict:
  "create ''users'' (Inl (error\<lparr>status := Some 409\<rparr>)) =
     Inl (Fresh (Error ''Username or email already exists. Please choose different credentials.''))"
  by (simp add: create_def)

lemma includes_str_nonempty:
  "includes_str s t \<Longrightarrow> t \<noteq> [] \<Longrightarrow> s \<noteq> []"
  by (cases s) auto

lemma cannot_delete_message:
  assumes "nullish (body error) \<or>
           (\<exists>d. property (body error) ''detail'' = Inr d \<and> (nullish d \<or> (\<exists>s. d = Some (JStr s))))"
  shows "\<exists>m. m \<noteq> [] \<and> cannot_delete error = Error m"
proof (cases "nullish (body error)")
  case True
  then show ?thesis by (simp add: cannot_delete_def)
next
  case False
  with assms obtain d where d: "property (body error) ''detail'' = Inr d"
    and shape: "nullish d \<or> (\<exists>s. d = Some (JStr s))"
    by blast
  from shape show ?thesis
  proof
    assume "nullish d"
    then have "d = None \<or> d = Some JNull"
      by (cases d rule: nullish.cases) auto
    with False d show ?thesis
      by (auto simp: cannot_delete_def)
  next
    assume "\<exists>s. d = Some (JStr s)"
    then obtain s where s: "d = Some (JStr s)" by blast
    show ?thesis
    proof (cases "includes_str s ''Cannot delete''")
      case True
      then have "s \<noteq> []" by (rule includes_str_nonempty) simp
      with True False d s show ?thesis by (simp add: cannot_delete_def)
    next
      case no: False
      with False d s show ?thesis by (simp add: cannot_delete_def)
    qed
  qed
qed

text \<open>
  Claim C5, as the code has it. The operations translate an error only for the resource
  \<^verbatim>\<open>users\<close> and only for the statuses of their own table: 403, 401, 409, 422, 500 for
  \<open>create\<close>; 403, 401, 409, 404 for \<open>update\<close>; 403, 401, 400 for \<open>delete\<close>; 401, 403
  for \<open>getList\<close> and \<open>getOne\<close>. There the caller gets a new \<^verbatim>\<open>Error\<close> with a message
  that is not empty (for a \<open>delete\<close> answered 400, when the detail of the body is absent
  or a string). For every other resource and every other status, a failure without a
  status included, the caught object is thrown again as it is.
\<close>

theorem gateway_error_mapping:
  "(if resource = ''users'' \<and> status error \<in> {Some 403, Some 401, Some 409, Some 422, Some 500}
    then \<exists>m. m \<noteq> [] \<and> create resource (Inl error) = (Inl (Fresh (Error m)) :: delivered + 'a)
    else create resource (Inl error) = (Inl (Raw error) :: delivered + 'a)) \<and>
   (if resource = ''users'' \<and> status error \<in> {Some 403, Some 401, Some 409, Some 404}
    then \<exists>m. m \<noteq> [] \<and> update resource (Inl error) = (Inl (Fresh (Error m)) :: delivered + 'b)
    else update resource (Inl error) = (Inl (Raw error) :: delivered + 'b)) \<and>
   (if resource = ''users'' \<and> status error \<in> {Some 403, Some 401}
    then \<exists>m. m \<noteq> [] \<and> delete resource (Inl error) = (Inl (Fresh (Error m)) :: delivered + 'c)
    else if resource = ''users'' \<and> status error = Some 400
    then \<exists>err. delete resource (Inl error) = (Inl (Fresh err) :: delivered + 'c) \<and>
           (nullish (body error) \<or>
            (\<exists>d. property (body error) ''detail'' = Inr d \<and> (nullish d \<or> (\<exists>s. d = Some (JStr s))))
            \<longrightarrow> (\<exists>m. m \<noteq> [] \<and> err = Error m))
    else delete resource (Inl error) = (Inl (Raw error) :: delivered + 'c)) \<and>
   (if resource = ''users'' \<and> status error \<in> {Some 401, Some 403}
    then \<exists>m. m \<noteq> [] \<and> getList resource (Inl error) = (Inl (Fresh (Error m)) :: delivered + 'd list_result)
    else getList resource (Inl error) = (Inl (Raw error) :: delivered + 'd list_result)) \<and>
   (if resource = ''users'' \<and> status error \<in> {Some 401, Some 403}
    then \<exists>m. m \<noteq> [] \<and> getOne resource (Inl error) = (Inl (Fresh (Error m)) :: delivered + 'e)
    else getOne resource (Inl error) = (Inl (Raw error) :: delivered + 'e))"
proof (intro conjI)
  show "if resource = ''users'' \<and> status error \<in> {Some 403, Some 401, Some 409, Some 422, Some 500}
    then \<exists>m. m \<noteq> [] \<and> create resource (Inl error) = (Inl (Fresh (Error m)) :: delivered + 'a)
    else create resource (Inl error) = (Inl (Raw error) :: delivered + 'a)"
    by (auto simp: create_def)
  show "if resource = ''users'' \<and> status error \<in> {Some 403, Some 401, Some 409, Some 404}
    then \<exists>m. m \<noteq> [] \<and> update resource (Inl error) = (Inl (Fresh (Error m)) :: delivered + 'b)
    else update resource (Inl error) = (Inl (Raw error) :: delivered + 'b)"
    by (auto simp: update_def)
  show "if resource = ''users'' \<and> status error \<in> {Some 403, Some 401}
    then \<exists>m. m \<noteq> [] \<and> delete resource (Inl error) = (Inl (Fresh (Error m)) :: delivered + 'c)
    else if resource = ''users'' \<and> status error = Some 400
    then \<exists>err. delete resource (Inl error) = (Inl (Fresh err) :: delivered + 'c) \<and>
           (nullish (body error) \<or>
            (\<exists>d. property (body error) ''detail'' = Inr d \<and> (nullish d \<or> (\<exists>s. d = Some (JStr s))))
            \<longrightarrow> (\<exists>m. m \<noteq> [] \<and> err = Error m))
    else delete resource (Inl error) = (Inl (Raw error) :: delivered + 'c)"
    using cannot_delete_message [of error] by (auto simp: delete_def)
  show "if resource = ''users'' \<and> status error \<in> {Some 401, Some 403}
    then \<exists>m. m \<noteq> [] \<and> getList resource (Inl error) = (Inl (Fresh (Error m)) :: delivered + 'd list_result)
    else getList resource (Inl error) = (Inl (Raw error) :: delivered + 'd list_result)"
    by (auto simp: getList_def)
  show "if resource = ''users'' \<and> status error \<in> {Some 401, Some 403}
    then \<exists>m. m \<noteq> [] \<and> getOne resource (Inl error) = (Inl (Fresh (Error m)) :: delivered + 'e)
    else getOne resource (Inl error) = (Inl (Raw error) :: delivered + 'e)"
    by (auto simp: getOne_def)
qed

theorem gateway_error_mapping_witness:
  "(nullish (body \<lparr>status = Some 400,
                   body = Some (JObj [(''detail'', JStr ''Cannot delete the last administrator'')]),
                   reason = ''Bad Request''\<rparr>) \<or>
    (\<exists>d. property (body \<lparr>status = Some 400,
                   body = Some (JObj [(''detail'', JStr ''Cannot delete the last administrator'')]),
                   reason = ''Bad Request''\<rparr>) ''detail'' = Inr d \<and>
         (nullish d \<or> (\<exists>s. d = Some (JStr s))))) \<and>
   (\<exists>m. m \<noteq> [] \<and>
      delete ''users'' (Inl \<lparr>status = Some 400,
                   body = Some (JObj [(''detail'', JStr ''Cannot delete the last administrator'')]),
                   reason = ''Bad Request''\<rparr> :: failure + unit) = Inl (Fresh (Error m))) \<and>
   create ''users'' (Inl \<lparr>status = Some 400,
                   body = Some (JObj [(''detail'', JStr ''Cannot delete the last administrator'')]),
                   reason = ''Bad Request''\<rparr> :: failure + unit) =
     Inl (Raw \<lparr>status = Some 400,
                   body = Some (JObj [(''detail'', JStr ''Cannot delete the last administrator'')]),
                   reason = ''Bad Request''\<rparr>)"
proof -
  let ?e = "\<lparr>status = Some 400,
                   body = Some (JObj [(''detail'', JStr ''Cannot delete the last administrator'')]),
                   reason = ''Bad Request''\<rparr>"
  have h: "nullish (body ?e) \<or>
    (\<exists>d. property (body ?e) ''detail'' = Inr d \<and> (nullish d \<or> (\<exists>s. d = Some (JStr s))))"
    by simp
  from gateway_error_mapping [where resource = "''users''" and error = ?e
        and ?'a = unit and ?'b = unit and ?'c = unit and ?'d = unit and ?'e = unit]
  have c: "create ''users'' (Inl ?e :: failure + unit) = Inl (Raw ?e)"
    and d: "\<exists>err. delete ''users'' (Inl ?e :: failure + unit) = Inl (Fresh err) \<and>
           (nullish (body ?e) \<or>
            (\<exists>d. property (body ?e) ''detail'' = Inr d \<and> (nullish d \<or> (\<exists>s. d = Some (JStr s))))
            \<longrightarrow> (\<exists>m. m \<noteq> [] \<and> err = Error m))"
    by simp_all
  from d h have "\<exists>m. m \<noteq> [] \<and> delete ''users'' (Inl ?e :: failure + unit) = Inl (Fresh (Error m))"
    by blast
  with c h show ?thesis by blast
qed

text \<open>
  The claim as the specification states it has no raw error reach the caller. A
  \<open>create\<close> on \<^verbatim>\<open>drivers\<close> answered 500 and a \<open>getOne\<close> on \<^verbatim>\<open>users\<close> answered 404
  both throw the caught object itself.
\<close>

theorem create_drivers_rethrows_raw:
  "create ''drivers''
     (Inl \<lparr>status = Some 500, body = Some (JObj [(''detail'', JStr ''Internal Server Error'')]),
           reason = ''Internal Server Error''\<rparr> :: failure + unit) =
   Inl (Raw \<lparr>status = Some 500, body = Some (JObj [(''detail'', JStr ''Internal Server Error'')]),
             reason = ''Internal Server Error''\<rparr>) \<and>
   getOne ''users''
     (Inl \<lparr>status = Some 404, body = Some (JObj [(''detail'', JStr ''User not found'')]),
           reason = ''Not Found''\<rparr> :: failure + unit) =
   Inl (Raw \<lparr>status = Some 404, body = Some (JObj [(''detail'', JStr ''User not found'')]),
             reason = ''Not Found''\<rparr>)"
  by (simp add: create_def getOne_def)

end
